theory Spec2Isabelle
  imports Main "HOL-Library.AList" "HOL-Library.Multiset"
begin

section \<open>Values and documents of the document store\<close>

text \<open>
  The application (src/app.js) keeps no data of its own: every list, friend edge and
  request is a document of the managed document store, reached through the store's
  client library. A JavaScript string is modelled as a \<open>string\<close>, one character for
  each code unit (code units below 256); its \<open>length\<close> is the number of its code
  units, which is what \<open>displayName.length\<close> reads.

  A server timestamp has whole seconds and a nanosecond part; the application only ever
  reads \<open>addedAt.seconds\<close> (line 175).
\<close>

record timestamp =
  seconds :: int
  nanoseconds :: nat

text \<open>A field of a JavaScript object or of a stored document.\<close>

datatype jsv = Undefined | Null | Str string | Num int | Time timestamp

type_synonym document = "(string \<times> jsv) list"

text \<open>JavaScript truthiness and the operator \<open>a || b\<close> on such values.\<close>

fun truthy :: "jsv \<Rightarrow> bool" where
  "truthy Undefined = False"
| "truthy Null = False"
| "truthy (Str s) = (s \<noteq> [])"
| "truthy (Num n) = (n \<noteq> 0)"
| "truthy (Time t) = True"

definition js_or :: "jsv \<Rightarrow> jsv \<Rightarrow> jsv" where
  "js_or a b = (if truthy a then a else b)"

text \<open>Reading a property of an object: \<open>undefined\<close> when it is absent.\<close>

definition prop_of :: "document \<Rightarrow> string \<Rightarrow> jsv" where
  "prop_of d f = (case map_of d f of None \<Rightarrow> Undefined | Some v \<Rightarrow> v)"

text \<open>
  The collections the application addresses. The source builds them as path strings
  \<open>artifacts/{appId}/public/users\<close> and \<open>artifacts/{appId}/users/{uid}/{name}\<close>
  for one fixed \<open>appId\<close> of one path segment, as the default \<open>default-app-id\<close>
  is; account ids contain no slash, so a path is determined by the collection name and
  the account id.
\<close>

datatype collection =
    PublicUsers
  | WatchedList string
  | Wishlist string
  | Friends string
  | FriendRequests string

type_synonym docs = "(string \<times> document) list"

type_synonym store = "collection \<Rightarrow> docs"

datatype direction = Asc | Desc

datatype constraint =
    Where_eq string jsv
  | OrderBy string direction
  | Limit nat

text \<open>
  What \<open>doc(db, path, id)\<close> and \<open>query(collection(db, path), ...)\<close> build: a
  document reference or a query.
\<close>

datatype reference =
    DocRef collection string
  | QueryRef collection "constraint list"

datatype snapshot =
    DocumentSnapshot string "document option"
  | QuerySnapshot docs

datatype batch_write = BatchSet collection string document | BatchDelete collection string

datatype error_code = InvalidArgument | PermissionDenied | EmailAlreadyInUse | InvalidCredential

datatype js_error =
    Error string
  | FirestoreError error_code
  | AuthError error_code
  | TypeError
  | NetworkError

datatype sdk_call =
    GetDoc reference
  | SetDoc collection string document
  | DeleteDoc collection string
  | Commit "batch_write list"
  | CreateUser string string
  | SignIn string string
  | Fetch string nat

record detail =
  runtime :: jsv
  episode_run_time :: "jsv list option"

text \<open>
  The world outside the application: the documents of the store, the requests the store
  refuses (by its security rules, or a commit it cannot apply), the server's clock, the
  accounts of the auth provider, what the provider and the catalog answer, and the calls
  made to the client libraries so far. The store decides on every request by itself: of
  several writes made one after the other any one can be refused while the others are
  applied.
\<close>

record world =
  store :: store
  denied :: "sdk_call \<Rightarrow> bool"
  clock :: timestamp
  accounts :: "(string \<times> string \<times> string) list"
  provider :: "string \<Rightarrow> string \<Rightarrow> js_error + string"
  catalog :: "string \<Rightarrow> nat \<Rightarrow> js_error + detail"
  calls :: "sdk_call list"

section \<open>The client libraries\<close>

text \<open>
  The store's client library and the auth provider are not part of the repository. They
  are modelled by their documented contract:
  \<^item> \<open>collection(db, path)\<close> takes a path of an odd number of segments. The lists,
    friends and requests of a user have five; \<open>artifacts/{appId}/public/users\<close> has
    four, so \<open>collection\<close> throws an invalid-argument error on it;
  \<^item> \<open>setDoc\<close> replaces the document under its key, \<open>deleteDoc\<close> removes it (removing
    an absent document succeeds), and a write with an \<open>undefined\<close> field throws;
  \<^item> a request that the store refuses is rejected with permission-denied and changes
    nothing; the client is online (a write made offline is queued and its promise does
    not settle: such a call has no outcome here);
  \<^item> a \<open>writeBatch\<close> is sent as one request: the store applies all of its writes or
    refuses them all;
  \<^item> \<open>getDoc\<close> reads one document and takes a document reference only: given a query
    it throws an invalid-argument error before any request is sent (reading a query
    is \<open>getDocs\<close>, which src/app.js never imports, lines 10-24);
  \<^item> \<open>serverTimestamp()\<close> is replaced by the server's clock when the write is applied.
\<close>

definition logged :: "sdk_call \<Rightarrow> world \<Rightarrow> world" where
  "logged c w = w\<lparr>calls := calls w @ [c]\<rparr>"

definition storable :: "document \<Rightarrow> bool" where
  "storable d = (Undefined \<notin> snd ` set d)"

fun apply_write :: "batch_write \<Rightarrow> store \<Rightarrow> store" where
  "apply_write (BatchSet c k d) s = s(c := AList.update k d (s c))"
| "apply_write (BatchDelete c k) s = s(c := AList.delete k (s c))"

fun write_storable :: "batch_write \<Rightarrow> bool" where
  "write_storable (BatchSet c k d) = storable d"
| "write_storable (BatchDelete c k) = True"

fun collection_ref :: "collection \<Rightarrow> js_error + collection" where
  "collection_ref PublicUsers = Inl (FirestoreError InvalidArgument)"
| "collection_ref c = Inr c"

definition getDoc :: "reference \<Rightarrow> world \<Rightarrow> (js_error + snapshot) \<times> world" where
  "getDoc r w =
     (case r of
        QueryRef c cs \<Rightarrow> (Inl (FirestoreError InvalidArgument), logged (GetDoc r) w)
      | DocRef c k \<Rightarrow>
          (if denied w (GetDoc r) then Inl (FirestoreError PermissionDenied)
           else Inr (DocumentSnapshot k (map_of (store w c) k)),
           logged (GetDoc r) w))"

definition setDoc :: "collection \<Rightarrow> string \<Rightarrow> document \<Rightarrow> world \<Rightarrow> (js_error + unit) \<times> world" where
  "setDoc c k d w =
     (if \<not> storable d then (Inl (FirestoreError InvalidArgument), logged (SetDoc c k d) w)
      else if denied w (SetDoc c k d)
      then (Inl (FirestoreError PermissionDenied), logged (SetDoc c k d) w)
      else (Inr (), logged (SetDoc c k d) (w\<lparr>store := apply_write (BatchSet c k d) (store w)\<rparr>)))"

definition deleteDoc :: "collection \<Rightarrow> string \<Rightarrow> world \<Rightarrow> (js_error + unit) \<times> world" where
  "deleteDoc c k w =
     (if denied w (DeleteDoc c k)
      then (Inl (FirestoreError PermissionDenied), logged (DeleteDoc c k) w)
      else (Inr (), logged (DeleteDoc c k) (w\<lparr>store := apply_write (BatchDelete c k) (store w)\<rparr>)))"

definition commit :: "batch_write list \<Rightarrow> world \<Rightarrow> (js_error + unit) \<times> world" where
  "commit batch w =
     (if denied w (Commit batch)
      then (Inl (FirestoreError PermissionDenied), logged (Commit batch) w)
      else (Inr (), logged (Commit batch) (w\<lparr>store := foldl (\<lambda>s x. apply_write x s) (store w) batch\<rparr>)))"

definition createUserWithEmailAndPassword ::
  "string \<Rightarrow> string \<Rightarrow> world \<Rightarrow> (js_error + string) \<times> world" where
  "createUserWithEmailAndPassword e p w =
     (case provider w e p of
        Inl err \<Rightarrow> (Inl err, logged (CreateUser e p) w)
      | Inr u \<Rightarrow> (Inr u, logged (CreateUser e p) (w\<lparr>accounts := accounts w @ [(e, p, u)]\<rparr>)))"

definition signInWithEmailAndPassword ::
  "string \<Rightarrow> string \<Rightarrow> world \<Rightarrow> (js_error + string) \<times> world" where
  "signInWithEmailAndPassword e p w =
     (case find (\<lambda>(e', p', u). e' = e \<and> p' = p) (accounts w) of
        None \<Rightarrow> (Inl (AuthError InvalidCredential), logged (SignIn e p) w)
      | Some (e', p', u) \<Rightarrow> (Inr u, logged (SignIn e p) w))"

definition fetch_detail :: "string \<Rightarrow> nat \<Rightarrow> world \<Rightarrow> (js_error + detail) \<times> world" where
  "fetch_detail kind n w = (catalog w kind n, logged (Fetch kind n) w)"

text \<open>What the application reads from a snapshot.\<close>

fun snapshot_docs :: "snapshot \<Rightarrow> js_error + docs" where
  "snapshot_docs (QuerySnapshot ds) = Inr ds"
| "snapshot_docs (DocumentSnapshot k d) = Inl TypeError"

text \<open>\<open>!snap.empty\<close>: a document snapshot has no such property, and \<open>!undefined\<close> is true.\<close>

fun not_empty :: "snapshot \<Rightarrow> bool" where
  "not_empty (QuerySnapshot ds) = (ds \<noteq> [])"
| "not_empty (DocumentSnapshot k d) = True"

section \<open>The application's state\<close>

text \<open>
  An element of the \<open>friends\<close> and \<open>friendRequests\<close> state, built from a snapshot
  as \<open>{ id: d.id, ...d.data() }\<close> (lines 152-153). The documents of these collections
  have no field named \<open>id\<close> (lines 308-311, 318-320).
\<close>

record listed =
  doc_id :: string
  doc_data :: document

record feed_item =
  item_data :: document
  item_id :: string
  user :: listed

datatype message = Literal string | MessageOf js_error

record app =
  auth :: bool
  db :: bool
  userId :: "string option"
  email :: string
  password :: string
  displayName :: string
  isLoading :: bool
  error :: "message option"
  friends :: "listed list"
  friendsFeed :: "feed_item list"
  isFeedLoading :: bool

section \<open>The friends feed (lines 158-180)\<close>

text \<open>
  \<open>Array.prototype.sort\<close> with a comparator: a stable sort that puts \<open>a\<close> before
  \<open>b\<close> when \<open>cmp a b < 0\<close> and keeps the order of \<open>a\<close> and \<open>b\<close> when
  \<open>cmp a b = 0\<close>. Each element, from the last to the first, is placed in front of
  the elements it does not come after.
\<close>

fun place :: "('a \<Rightarrow> 'a \<Rightarrow> int) \<Rightarrow> 'a \<Rightarrow> 'a list \<Rightarrow> 'a list" where
  "place cmp a [] = [a]"
| "place cmp a (b # bs) = (if cmp a b \<le> 0 then a # b # bs else b # place cmp a bs)"

definition array_sort :: "('a \<Rightarrow> 'a \<Rightarrow> int) \<Rightarrow> 'a list \<Rightarrow> 'a list" where
  "array_sort cmp xs = foldr (place cmp) xs []"

text \<open>\<open>x.addedAt?.seconds || 0\<close>\<close>

definition addedAt_seconds :: "feed_item \<Rightarrow> int" where
  "addedAt_seconds x =
     (case prop_of (item_data x) ''addedAt'' of
        Time t \<Rightarrow> (if seconds t \<noteq> 0 then seconds t else 0)
      | _ \<Rightarrow> 0)"

text \<open>\<open>(a, b) => (b.addedAt?.seconds || 0) - (a.addedAt?.seconds || 0)\<close>\<close>

definition feed_cmp :: "feed_item \<Rightarrow> feed_item \<Rightarrow> int" where
  "feed_cmp a b = addedAt_seconds b - addedAt_seconds a"

definition sort_feed :: "feed_item list \<Rightarrow> feed_item list" where
  "sort_feed feed = array_sort feed_cmp feed"

text \<open>
  The loop of \<open>fetchFeeds\<close>: one \<open>getDoc\<close> per friend, on the query for the friend's
  five most recent watched entries; an error thrown by the call or by
  \<open>snap.forEach\<close> ends the function.
\<close>

fun fetch_loop :: "app \<Rightarrow> listed list \<Rightarrow> feed_item list \<Rightarrow> world \<Rightarrow> (js_error + feed_item list) \<times> world" where
  "fetch_loop a [] feed w = (Inr feed, w)"
| "fetch_loop a (fr # rest) feed w =
     (if \<not> db a then (Inl (FirestoreError InvalidArgument), w)
      else
        (case getDoc (QueryRef (WatchedList (doc_id fr)) [OrderBy ''addedAt'' Desc, Limit 5]) w of
           (Inl e, w1) \<Rightarrow> (Inl e, w1)
         | (Inr snap, w1) \<Rightarrow>
             (case snapshot_docs snap of
                Inl e \<Rightarrow> (Inl e, w1)
              | Inr ds \<Rightarrow>
                  fetch_loop a rest
                    (feed @ map (\<lambda>(k, d). \<lparr>item_data = d, item_id = k, user = fr\<rparr>) ds) w1)))"

definition fetchFeeds :: "app \<times> world \<Rightarrow> js_error option \<times> app \<times> world" where
  "fetchFeeds = (\<lambda>(a, w).
     (case fetch_loop a (friends a) [] w of
        (Inl e, w1) \<Rightarrow> (Some e, a, w1)
      | (Inr feed, w1) \<Rightarrow>
          (None, a\<lparr>friendsFeed := sort_feed feed, isFeedLoading := False\<rparr>, w1)))"

text \<open>The effect that runs whenever the friend set changes.\<close>

definition friendsFeedLoader :: "app \<times> world \<Rightarrow> js_error option \<times> app \<times> world" where
  "friendsFeedLoader = (\<lambda>(a, w).
     if length (friends a) = 0 then (None, a\<lparr>friendsFeed := []\<rparr>, w)
     else fetchFeeds (a\<lparr>isFeedLoading := True\<rparr>, w))"

section \<open>Signing up and logging in (lines 189-231)\<close>

text \<open>
  \<open>toLowerCase\<close> on code units below 256: the letters A to Z and the capital letters
  of the range 192 to 222 (215, the multiplication sign, is none) move up by 32.
\<close>

definition toLowerCase :: "string \<Rightarrow> string" where
  "toLowerCase s =
     map (\<lambda>c. let n = (of_char c :: nat) in
            if (65 \<le> n \<and> n \<le> 90) \<or> (192 \<le> n \<and> n \<le> 222 \<and> n \<noteq> 215)
            then char_of (n + 32) else c) s"

text \<open>
  The body of the \<open>try\<close> block of \<open>handleSignup\<close>: the collection of the public
  profiles (line 199), the query for the name and \<open>getDoc\<close> on it (lines 200-201), the
  account (line 206) and the profile (lines 208-211).
\<close>

definition signup_steps :: "app \<Rightarrow> world \<Rightarrow> (js_error + unit) \<times> world" where
  "signup_steps a w =
     (case collection_ref PublicUsers of
        Inl e \<Rightarrow> (Inl e, w)
      | Inr usersRef \<Rightarrow>
          (case getDoc (QueryRef usersRef
                  [Where_eq ''displayName_lower'' (Str (toLowerCase (displayName a)))]) w of
             (Inl e, w1) \<Rightarrow> (Inl e, w1)
           | (Inr nameCheck, w1) \<Rightarrow>
               (if not_empty nameCheck then (Inl (Error ''Display name is already taken.''), w1)
                else
                  (case createUserWithEmailAndPassword (email a) (password a) w1 of
                     (Inl e, w2) \<Rightarrow> (Inl e, w2)
                   | (Inr uid, w2) \<Rightarrow>
                       (case collection_ref PublicUsers of
                          Inl e \<Rightarrow> (Inl e, w2)
                        | Inr profiles \<Rightarrow>
                            setDoc profiles uid
                              [(''displayName'', Str (displayName a)),
                               (''displayName_lower'', Str (toLowerCase (displayName a)))] w2)))))"

definition handleSignup :: "app \<times> world \<Rightarrow> app \<times> world" where
  "handleSignup = (\<lambda>(a, w).
     if \<not> auth a \<or> \<not> db a then (a, w)
     else if length (displayName a) < 3 then
       (a\<lparr>error := Some (Literal ''Display name must be at least 3 characters.'')\<rparr>, w)
     else
       (let a1 = a\<lparr>isLoading := True, error := None\<rparr> in
        case signup_steps a1 w of
          (Inl e, w1) \<Rightarrow> (a1\<lparr>error := Some (MessageOf e), isLoading := False\<rparr>, w1)
        | (Inr u, w1) \<Rightarrow> (a1\<lparr>isLoading := False\<rparr>, w1)))"

definition handleLogin :: "app \<times> world \<Rightarrow> app \<times> world" where
  "handleLogin = (\<lambda>(a, w).
     if \<not> auth a then (a, w)
     else
       (let a1 = a\<lparr>isLoading := True, error := None\<rparr> in
        case signInWithEmailAndPassword (email a1) (password a1) w of
          (Inl e, w1) \<Rightarrow> (a1\<lparr>error := Some (MessageOf e), isLoading := False\<rparr>, w1)
        | (Inr u, w1) \<Rightarrow> (a1\<lparr>isLoading := False\<rparr>, w1)))"

section \<open>The lists (lines 253-279)\<close>

text \<open>A search result of the catalog, as \<open>addToList\<close> reads it.\<close>

record media_item =
  media_id :: nat
  media_type :: string
  title :: jsv
  name :: jsv
  poster_path :: jsv
  release_date :: jsv
  first_air_date :: jsv

text \<open>\<open>String(n)\<close> for a catalog id: its decimal digits.\<close>

function decimal :: "nat \<Rightarrow> string" where
  "decimal n = (if n < 10 then [char_of (48 + n)] else decimal (n div 10) @ [char_of (48 + n mod 10)])"
  by pat_completeness auto
termination
  by (relation "measure (\<lambda>n. n)") auto

declare decimal.simps [simp del]

text \<open>
  \<open>detailData.runtime || (detailData.episode_run_time ? detailData.episode_run_time[0] : 0) || 0\<close>;
  an array is truthy also when it is empty, and its element 0 is then \<open>undefined\<close>.
\<close>

definition runtime_of :: "detail \<Rightarrow> jsv" where
  "runtime_of d =
     js_or (js_or (runtime d)
              (case episode_run_time d of
                 None \<Rightarrow> Num 0
               | Some xs \<Rightarrow> (case xs of [] \<Rightarrow> Undefined | x # rest \<Rightarrow> x)))
           (Num 0)"

definition listPath :: "string \<Rightarrow> string \<Rightarrow> collection" where
  "listPath u listType = (if listType = ''watched'' then WatchedList u else Wishlist u)"

text \<open>The document \<open>addToList\<close> writes (lines 262-269), stamped by the server.\<close>

definition media_entry :: "media_item \<Rightarrow> detail \<Rightarrow> timestamp \<Rightarrow> document" where
  "media_entry item d t =
     [(''title'', js_or (title item) (name item)),
      (''poster_path'', poster_path item),
      (''media_type'', Str (media_type item)),
      (''release_date'', js_or (release_date item) (first_air_date item)),
      (''runtime'', runtime_of d),
      (''addedAt'', Time t)]"

definition could_not_add :: "string \<Rightarrow> message" where
  "could_not_add listType = Literal (''Could not add to '' @ listType @ '' list.'')"

definition addToList :: "media_item \<Rightarrow> string \<Rightarrow> app \<times> world \<Rightarrow> app \<times> world" where
  "addToList item listType = (\<lambda>(a, w).
     case userId a of
       None \<Rightarrow> (a, w)
     | Some u \<Rightarrow>
         if \<not> db a \<or> u = [] then (a, w)
         else
           (case fetch_detail (media_type item) (media_id item) w of
              (Inl e, w1) \<Rightarrow> (a\<lparr>error := Some (could_not_add listType)\<rparr>, w1)
            | (Inr detailData, w1) \<Rightarrow>
                (case setDoc (listPath u listType) (decimal (media_id item))
                        (media_entry item detailData (clock w1)) w1 of
                   (Inl e, w2) \<Rightarrow> (a\<lparr>error := Some (could_not_add listType)\<rparr>, w2)
                 | (Inr r, w2) \<Rightarrow> (a, w2))))"

text \<open>
  \<open>removeFromList\<close> is called with the \<open>id\<close> of a list element, which is the
  document's key, a string; \<open>String\<close> leaves it as it is. The promise of
  \<open>deleteDoc\<close> is dropped: the caller sees no result.
\<close>

definition removeFromList :: "string \<Rightarrow> string \<Rightarrow> app \<times> world \<Rightarrow> app \<times> world" where
  "removeFromList itemId listType = (\<lambda>(a, w).
     case userId a of
       None \<Rightarrow> (a, w)
     | Some u \<Rightarrow>
         if \<not> db a \<or> u = [] then (a, w)
         else (a, snd (deleteDoc (listPath u listType) itemId w)))"

section \<open>Friend requests (lines 314-327)\<close>

text \<open>The three writes of the batch of lines 316-322.\<close>

definition accept_batch :: "string \<Rightarrow> string \<Rightarrow> listed \<Rightarrow> batch_write list" where
  "accept_batch u dn request =
     [BatchSet (Friends u) (doc_id request) [(''displayName'', prop_of (doc_data request) ''displayName'')],
      BatchSet (Friends (doc_id request)) u [(''displayName'', Str dn)],
      BatchDelete (FriendRequests u) (doc_id request)]"

text \<open>
  Accepting builds one batch and commits it once (line 323): the store receives one
  request. The function has no guard of its own. Without a database handle \<open>writeBatch\<close> and
  \<open>doc\<close> throw; an empty \<open>userId\<close> makes an invalid path, and a null one an
  invalid key for the second write of the batch; \<open>batch.set\<close> throws on a document
  with an \<open>undefined\<close> field. In the path of the declined request a null
  \<open>userId\<close> is interpolated as the text \<open>null\<close>.
\<close>

definition handleFriendRequest ::
  "listed \<Rightarrow> string \<Rightarrow> app \<times> world \<Rightarrow> js_error option \<times> app \<times> world" where
  "handleFriendRequest request action = (\<lambda>(a, w).
     if \<not> db a \<or> userId a = Some [] then (Some (FirestoreError InvalidArgument), a, w)
     else if action = ''accept'' then
       (case userId a of
          None \<Rightarrow> (Some (FirestoreError InvalidArgument), a, w)
        | Some u \<Rightarrow>
            if \<not> list_all write_storable (accept_batch u (displayName a) request)
            then (Some (FirestoreError InvalidArgument), a, w)
            else
              (case commit (accept_batch u (displayName a) request) w of
                 (Inl e, w1) \<Rightarrow> (Some e, a, w1)
               | (Inr r, w1) \<Rightarrow> (None, a, w1)))
     else
       (case deleteDoc (FriendRequests (case userId a of None \<Rightarrow> ''null'' | Some u \<Rightarrow> u))
               (doc_id request) w of
          (Inl e, w1) \<Rightarrow> (Some e, a, w1)
        | (Inr r, w1) \<Rightarrow> (None, a, w1)))"

section \<open>States of the examples\<close>

definition watched_doc :: "string \<Rightarrow> int \<Rightarrow> nat \<Rightarrow> document" where
  "watched_doc t s n =
     [(''title'', Str t), (''poster_path'', Null), (''media_type'', Str ''movie''),
      (''release_date'', Str ''2020-01-01''), (''runtime'', Num 100),
      (''addedAt'', Time \<lparr>seconds = s, nanoseconds = n\<rparr>)]"

definition fay :: listed where
  "fay = \<lparr>doc_id = ''f1'', doc_data = [(''displayName'', Str ''Fay'')]\<rparr>"

definition gus :: listed where
  "gus = \<lparr>doc_id = ''f2'', doc_data = [(''displayName'', Str ''Gus'')]\<rparr>"

definition world0 :: world where
  "world0 =
     \<lparr>store = (\<lambda>c. []), denied = (\<lambda>c. False),
      clock = \<lparr>seconds = 1000, nanoseconds = 0\<rparr>,
      accounts = [],
      provider = (\<lambda>e p. Inr (''uid-'' @ e)),
      catalog = (\<lambda>k n. if k = ''movie'' then Inr \<lparr>runtime = Num 139, episode_run_time = None\<rparr>
                         else Inr \<lparr>runtime = Undefined, episode_run_time = Some [Num 45]\<rparr>),
      calls = []\<rparr>"

definition alice :: app where
  "alice =
     \<lparr>auth = True, db = True, userId = Some ''alice'', email = ''alice@example.com'',
      password = ''secret12'', displayName = ''Alice'', isLoading = False, error = None,
      friends = [], friendsFeed = [], isFeedLoading = False\<rparr>"

text \<open>
  Fay has watched three titles (at 300 s, 200 s and 100 s) and Gus six, all of them
  later (900 s down to 400 s).
\<close>

definition feed_world :: world where
  "feed_world = world0\<lparr>store := (\<lambda>c.
     if c = WatchedList ''f1'' then
       [(''11'', watched_doc ''A'' 300 0), (''12'', watched_doc ''B'' 200 0),
        (''13'', watched_doc ''C'' 100 0)]
     else if c = WatchedList ''f2'' then
       [(''21'', watched_doc ''U'' 900 0), (''22'', watched_doc ''V'' 800 0),
        (''23'', watched_doc ''W'' 700 0), (''24'', watched_doc ''X'' 600 0),
        (''25'', watched_doc ''Y'' 500 0), (''26'', watched_doc ''Z'' 400 0)]
     else [])\<rparr>"

text \<open>A visitor who has not signed up yet.\<close>

definition annie :: app where
  "annie =
     \<lparr>auth = True, db = True, userId = None, email = ''annie@example.com'',
      password = ''secret12'', displayName = ''Annie'', isLoading = False, error = None,
      friends = [], friendsFeed = [], isFeedLoading = False\<rparr>"

text \<open>Alice has one friend, Dora, and two pending requests, from Bob and from Carl.\<close>

definition bob_request :: listed where
  "bob_request =
     \<lparr>doc_id = ''bob'',
      doc_data = [(''displayName'', Str ''Bob''), (''addedAt'', Time \<lparr>seconds = 900, nanoseconds = 0\<rparr>)]\<rparr>"

definition request_world :: world where
  "request_world = world0\<lparr>store := (\<lambda>c.
     if c = FriendRequests ''alice'' then
       [(''bob'', doc_data bob_request), (''carl'', [(''displayName'', Str ''Carl'')])]
     else if c = Friends ''alice'' then [(''dora'', [(''displayName'', Str ''Dora'')])]
     else [])\<rparr>"

text \<open>Alice's watched list holds two titles.\<close>

definition list_world :: world where
  "list_world = world0\<lparr>store := (\<lambda>c.
     if c = WatchedList ''alice'' then
       [(''603'', watched_doc ''The Matrix'' 500 0), (''11'', watched_doc ''Star Wars'' 400 0)]
     else [])\<rparr>"

text \<open>A movie and a series that carry the same number in the catalog.\<close>

definition the_matrix :: media_item where
  "the_matrix =
     \<lparr>media_id = 603, media_type = ''movie'', title = Str ''The Matrix'', name = Undefined,
      poster_path = Str ''/matrix.jpg'', release_date = Str ''1999-03-31'',
      first_air_date = Undefined\<rparr>"

definition a_series :: media_item where
  "a_series =
     \<lparr>media_id = 603, media_type = ''tv'', title = Undefined, name = Str ''Some Series'',
      poster_path = Null, release_date = Undefined, first_air_date = Str ''2005-09-13''\<rparr>"

text \<open>
  The same world under rules that let only Bob write into Bob's friends: the reciprocal
  edge written by Alice, alone or in the batch of the acceptance, is refused.
\<close>

definition strict_world :: world where
  "strict_world = request_world\<lparr>denied := (\<lambda>c.
     c = SetDoc (Friends ''bob'') ''alice'' [(''displayName'', Str ''Alice'')]
     \<or> c = Commit (accept_batch ''alice'' ''Alice'' bob_request))\<rparr>"

text \<open>A movie of the catalog with no release date yet: the date is the empty string.\<close>

definition undated_movie :: media_item where
  "undated_movie =
     \<lparr>media_id = 77, media_type = ''movie'', title = Str ''Untitled'', name = Undefined,
      poster_path = Null, release_date = Str [], first_air_date = Undefined\<rparr>"

text \<open>A world in which the catalog cannot be reached: every detail lookup fails.\<close>

definition no_catalog_world :: world where
  "no_catalog_world = world0\<lparr>catalog := (\<lambda>k n. Inl NetworkError)\<rparr>"

text \<open>
  Fay has watched two titles (at 300 s and at 100 s) and Gus one in between (at 200 s);
  the three entries as a fetch of the two lists would concatenate them, Fay's first.
\<close>

definition mixed_world :: world where
  "mixed_world = world0\<lparr>store := (\<lambda>c.
     if c = WatchedList ''f1'' then [(''11'', watched_doc ''A'' 300 0), (''13'', watched_doc ''C'' 100 0)]
     else if c = WatchedList ''f2'' then [(''21'', watched_doc ''G'' 200 0)]
     else [])\<rparr>"

definition entry_a :: feed_item where
  "entry_a = \<lparr>item_data = watched_doc ''A'' 300 0, item_id = ''11'', user = fay\<rparr>"

definition entry_c :: feed_item where
  "entry_c = \<lparr>item_data = watched_doc ''C'' 100 0, item_id = ''13'', user = fay\<rparr>"

definition entry_g :: feed_item where
  "entry_g = \<lparr>item_data = watched_doc ''G'' 200 0, item_id = ''21'', user = gus\<rparr>"

section \<open>The feed\<close>

text \<open>
  The sort of line 175, on its own, returns the entries it is given, each of them once,
  in descending order of the seconds of \<open>addedAt\<close>.
\<close>

lemma mset_place: "mset (place cmp a bs) = add_mset a (mset bs)"
  by (induction bs) auto

lemma mset_array_sort: "mset (array_sort cmp xs) = mset xs"
  by (induction xs) (auto simp: array_sort_def mset_place)

lemma set_place: "set (place cmp a bs) = insert a (set bs)"
  by (induction bs) auto

lemma sorted_place:
  "sorted_wrt (\<lambda>x y. addedAt_seconds y \<le> addedAt_seconds x) bs \<Longrightarrow>
   sorted_wrt (\<lambda>x y. addedAt_seconds y \<le> addedAt_seconds x) (place feed_cmp a bs)"
  by (induction bs) (auto simp: set_place feed_cmp_def)

lemma sorted_sort_feed:
  "sorted_wrt (\<lambda>x y. addedAt_seconds y \<le> addedAt_seconds x) (sort_feed feed)"
  by (induction feed) (auto simp: sort_feed_def array_sort_def sorted_place)

text \<open>
  The loop reaches that sort for no friend. Its first step is \<open>getDoc\<close> on a query
  (line 170), which throws: with any friend at all the loader ends with the error, the
  loading flag set and the feed as it was.
\<close>

lemma nonempty_friends_never_publish:
  assumes "friends a \<noteq> []"
  shows "fst (friendsFeedLoader (a, w)) = Some (FirestoreError InvalidArgument)
     \<and> fst (snd (friendsFeedLoader (a, w))) = a\<lparr>isFeedLoading := True\<rparr>"
proof -
  from assms obtain fr rest where "friends a = fr # rest"
    by (cases "friends a") auto
  then show ?thesis
    by (simp add: friendsFeedLoader_def fetchFeeds_def getDoc_def)
qed

text \<open>
  C3. With an empty friend set the loader publishes the empty feed and leaves the world
  as it is: no call is made to the store, so no friend's watched list is fetched.
\<close>

theorem empty_friend_set_no_fetch:
  assumes "friends a = []"
  shows "friendsFeedLoader (a, w) = (None, a\<lparr>friendsFeed := []\<rparr>, w)"
  using assms by (simp add: friendsFeedLoader_def)

text \<open>C3 at a signed-in account with no friends, in a world where other users have lists.\<close>

theorem empty_friend_set_no_fetch_witness:
  "friends alice = []
   \<and> friendsFeedLoader (alice, feed_world) = (None, alice\<lparr>friendsFeed := []\<rparr>, feed_world)"
  using empty_friend_set_no_fetch [of alice feed_world] by (simp add: alice_def)

text \<open>
  C2. The loader calls \<open>getDoc\<close> on the query for the first friend's five most recent
  entries (line 170); \<open>getDoc\<close> takes no query, the call throws, and the function ends
  there. With Fay's three entries and Gus's six in the store the feed is not the eight
  entries of the claim: nothing is published, the feed stays empty and the loading flag
  stays set.
\<close>

theorem feed_of_two_friends_rejected:
  "friendsFeedLoader (alice\<lparr>friends := [fay, gus]\<rparr>, feed_world) =
     (Some (FirestoreError InvalidArgument),
      alice\<lparr>friends := [fay, gus], isFeedLoading := True\<rparr>,
      logged (GetDoc (QueryRef (WatchedList ''f1'') [OrderBy ''addedAt'' Desc, Limit 5])) feed_world)
   \<and> friendsFeed (fst (snd (friendsFeedLoader (alice\<lparr>friends := [fay, gus]\<rparr>, feed_world)))) = []"
  by (simp add: friendsFeedLoader_def fetchFeeds_def getDoc_def alice_def fay_def)

text \<open>
  C4. Fay's entries of 300 s and 100 s and Gus's entry of 200 s, concatenated friend by
  friend, would be sorted by line 175 into 300 s, 200 s, 100 s. The loader does not
  publish that sequence: it ends at the \<open>getDoc\<close> of line 170 with the error, the
  feed stays empty and the loading flag stays set.
\<close>

theorem fetched_entries_never_published:
  "sort_feed [entry_a, entry_c, entry_g] = [entry_a, entry_g, entry_c]
   \<and> fst (friendsFeedLoader (alice\<lparr>friends := [fay, gus]\<rparr>, mixed_world))
       = Some (FirestoreError InvalidArgument)
   \<and> friendsFeed (fst (snd (friendsFeedLoader (alice\<lparr>friends := [fay, gus]\<rparr>, mixed_world)))) = []
   \<and> isFeedLoading (fst (snd (friendsFeedLoader (alice\<lparr>friends := [fay, gus]\<rparr>, mixed_world))))"
  by (simp add: friendsFeedLoader_def fetchFeeds_def getDoc_def alice_def fay_def
      sort_feed_def array_sort_def feed_cmp_def addedAt_seconds_def prop_of_def
      entry_a_def entry_c_def entry_g_def watched_doc_def)

section \<open>Signing up\<close>

text \<open>
  C5. A display name of fewer than three code units ends \<open>handleSignup\<close> at its
  validation (lines 191-194): the world is left as it is, so no account is created, no
  profile is written and no query for the name is made, and once the application is
  initialised the error shown is the validation message.
\<close>

theorem short_displayName_rejected:
  assumes "length (displayName a) < 3"
  shows "snd (handleSignup (a, w)) = w
     \<and> fst (handleSignup (a, w)) =
         (if auth a \<and> db a
          then a\<lparr>error := Some (Literal ''Display name must be at least 3 characters.'')\<rparr>
          else a)"
  using assms by (simp add: handleSignup_def)

text \<open>C5 at the display name \<open>Al\<close>.\<close>

theorem short_displayName_rejected_witness:
  "length (displayName (annie\<lparr>displayName := ''Al''\<rparr>)) < 3
   \<and> snd (handleSignup (annie\<lparr>displayName := ''Al''\<rparr>, world0)) = world0
   \<and> error (fst (handleSignup (annie\<lparr>displayName := ''Al''\<rparr>, world0)))
       = Some (Literal ''Display name must be at least 3 characters.'')"
  using short_displayName_rejected [of "annie\<lparr>displayName := ''Al''\<rparr>" world0]
  by (simp add: annie_def)

text \<open>
  The check for a free display name throws: \<open>collection\<close> refuses the path of the
  public profiles (line 199), and \<open>getDoc\<close> would refuse the query (line 201). The
  \<open>catch\<close> of line 213 shows the message, and the function ends before
  \<open>createUserWithEmailAndPassword\<close>: no sign-up creates an account or writes a profile.
\<close>

lemma handleSignup_never_registers:
  "accounts (snd (handleSignup (a, w))) = accounts w \<and> store (snd (handleSignup (a, w))) = store w"
  by (simp add: handleSignup_def signup_steps_def Let_def)

lemma handleSignup_rejected:
  assumes "auth a" "db a" "3 \<le> length (displayName a)"
  shows "error (fst (handleSignup (a, w))) = Some (MessageOf (FirestoreError InvalidArgument))"
  using assms by (simp add: handleSignup_def signup_steps_def Let_def)

text \<open>
  C6. Annie signs up with a display name of five letters that nobody has taken, a
  well-formed email and a password: the sign-up ends with an invalid-argument error, the
  auth provider holds no account, the store holds no profile, and logging in with the
  same credentials is refused.
\<close>

theorem signup_then_login_rejected:
  "error (fst (handleSignup (annie, world0))) = Some (MessageOf (FirestoreError InvalidArgument))
   \<and> accounts (snd (handleSignup (annie, world0))) = []
   \<and> store (snd (handleSignup (annie, world0))) = store world0
   \<and> error (fst (handleLogin (handleSignup (annie, world0)))) = Some (MessageOf (AuthError InvalidCredential))"
  by (simp add: handleSignup_def signup_steps_def Let_def handleLogin_def
      signInWithEmailAndPassword_def logged_def annie_def world0_def)

text \<open>
  C6: the input is a valid one. The application is initialised, the display name has
  five code units and no profile exists, and still no account is there after the sign-up.
\<close>

theorem signup_then_login_rejected_witness:
  "auth annie \<and> db annie \<and> 3 \<le> length (displayName annie) \<and> store world0 PublicUsers = []
   \<and> accounts (snd (handleSignup (annie, world0))) = []"
  using signup_then_login_rejected by (simp add: annie_def world0_def)

section \<open>Friend requests\<close>

text \<open>
  C1. Accepting the request of \<open>S\<close> as account \<open>A\<close> sends the store one request, the
  commit of a batch of exactly three writes, and no single write. When the store applies
  it, \<open>A\<close> lists \<open>S\<close> as a friend, \<open>S\<close> lists \<open>A\<close>, the request is gone and every
  other document is as before; when the call fails (no database handle, a request without
  a display name, a commit the store refuses) the store is unchanged. No other outcome
  exists, and the store is never asked for one of the writes alone.
\<close>

theorem acceptRequest_all_or_nothing:
  assumes "userId a = Some A" and "doc_id request = S"
    and "batch =
      [BatchSet (Friends A) S [(''displayName'', prop_of (doc_data request) ''displayName'')],
       BatchSet (Friends S) A [(''displayName'', Str (displayName a))],
       BatchDelete (FriendRequests A) S]"
  shows "\<exists>r w'. handleFriendRequest request ''accept'' (a, w) = (r, a, w')
     \<and> accounts w' = accounts w
     \<and> calls w' =
         (if db a \<and> A \<noteq> [] \<and> prop_of (doc_data request) ''displayName'' \<noteq> Undefined
          then calls w @ [Commit batch] else calls w)
     \<and> (if db a \<and> A \<noteq> [] \<and> prop_of (doc_data request) ''displayName'' \<noteq> Undefined
           \<and> \<not> denied w (Commit batch)
        then r = None
           \<and> map_of (store w' (Friends A)) S \<noteq> None
           \<and> (S \<noteq> A \<longrightarrow> map_of (store w' (Friends A)) S
                  = Some [(''displayName'', prop_of (doc_data request) ''displayName'')])
           \<and> map_of (store w' (Friends S)) A = Some [(''displayName'', Str (displayName a))]
           \<and> map_of (store w' (FriendRequests A)) S = None
           \<and> (\<forall>c k. (c, k) \<notin> {(Friends A, S), (Friends S, A), (FriendRequests A, S)}
                  \<longrightarrow> map_of (store w' c) k = map_of (store w c) k)
        else r \<noteq> None \<and> store w' = store w)"
proof (cases "db a \<and> A \<noteq> [] \<and> prop_of (doc_data request) ''displayName'' \<noteq> Undefined
    \<and> \<not> denied w (Commit batch)")
  case True
  then show ?thesis
    using assms(1,2)
    by (auto simp: assms(3) handleFriendRequest_def accept_batch_def storable_def commit_def
        logged_def update_conv' delete_conv')
next
  case False
  then show ?thesis
    using assms(1,2)
    by (auto simp: assms(3) handleFriendRequest_def accept_batch_def storable_def commit_def
        logged_def)
qed

text \<open>
  Three single writes are no such unit. Under the rules of \<open>strict_world\<close> Alice's own
  edge is written and the reciprocal one is refused: one edge stands without the other.
\<close>

lemma single_writes_stop_halfway:
  "fst (setDoc (Friends ''alice'') ''bob'' [(''displayName'', Str ''Bob'')] strict_world) = Inr ()
   \<and> fst (setDoc (Friends ''bob'') ''alice'' [(''displayName'', Str ''Alice'')]
           (snd (setDoc (Friends ''alice'') ''bob'' [(''displayName'', Str ''Bob'')] strict_world)))
       = Inl (FirestoreError PermissionDenied)
   \<and> map_of (store (snd (setDoc (Friends ''bob'') ''alice'' [(''displayName'', Str ''Alice'')]
           (snd (setDoc (Friends ''alice'') ''bob'' [(''displayName'', Str ''Bob'')] strict_world))))
         (Friends ''alice'')) ''bob'' = Some [(''displayName'', Str ''Bob'')]
   \<and> map_of (store (snd (setDoc (Friends ''bob'') ''alice'' [(''displayName'', Str ''Alice'')]
           (snd (setDoc (Friends ''alice'') ''bob'' [(''displayName'', Str ''Bob'')] strict_world))))
         (Friends ''bob'')) ''alice'' = None"
  by (simp add: setDoc_def storable_def logged_def strict_world_def request_world_def world0_def)

text \<open>
  C1 where Alice accepts Bob: Carl's request and the friend Dora stay; and under the
  rules of \<open>strict_world\<close>, where the commit is refused and nothing changes.
\<close>

theorem acceptRequest_all_or_nothing_witness:
  "userId alice = Some ''alice'' \<and> doc_id bob_request = ''bob''
   \<and> (\<exists>r w'. handleFriendRequest bob_request ''accept'' (alice, request_world) = (r, alice, w')
        \<and> r = None
        \<and> calls w' = [Commit (accept_batch ''alice'' ''Alice'' bob_request)]
        \<and> map_of (store w' (Friends ''alice'')) ''bob'' = Some [(''displayName'', Str ''Bob'')]
        \<and> map_of (store w' (Friends ''bob'')) ''alice'' = Some [(''displayName'', Str ''Alice'')]
        \<and> map_of (store w' (FriendRequests ''alice'')) ''bob'' = None
        \<and> map_of (store w' (FriendRequests ''alice'')) ''carl'' = Some [(''displayName'', Str ''Carl'')]
        \<and> map_of (store w' (Friends ''alice'')) ''dora'' = Some [(''displayName'', Str ''Dora'')])
   \<and> (\<exists>r w'. handleFriendRequest bob_request ''accept'' (alice, strict_world) = (r, alice, w')
        \<and> r \<noteq> None
        \<and> calls w' = [Commit (accept_batch ''alice'' ''Alice'' bob_request)]
        \<and> store w' = store strict_world)"
proof -
  have eval: "userId alice = Some ''alice''" "doc_id bob_request = ''bob''"
    "db alice" "displayName alice = ''Alice''"
    "prop_of (doc_data bob_request) ''displayName'' = Str ''Bob''"
    "map_of (store request_world (FriendRequests ''alice'')) ''carl'' = Some [(''displayName'', Str ''Carl'')]"
    "map_of (store request_world (Friends ''alice'')) ''dora'' = Some [(''displayName'', Str ''Dora'')]"
    "calls request_world = []" "calls strict_world = []"
    "\<And>c. \<not> denied request_world c"
    "denied strict_world (Commit (accept_batch ''alice'' ''Alice'' bob_request))"
    by (simp_all add: alice_def bob_request_def request_world_def strict_world_def world0_def
        prop_of_def)
  have batch: "accept_batch ''alice'' ''Alice'' bob_request =
      [BatchSet (Friends ''alice'') ''bob'' [(''displayName'', prop_of (doc_data bob_request) ''displayName'')],
       BatchSet (Friends ''bob'') ''alice'' [(''displayName'', Str (displayName alice))],
       BatchDelete (FriendRequests ''alice'') ''bob'']"
    by (simp add: accept_batch_def eval)
  from acceptRequest_all_or_nothing [OF eval(1) eval(2) batch, of request_world]
  obtain r w' where h: "handleFriendRequest bob_request ''accept'' (alice, request_world) = (r, alice, w')"
    "r = None"
    "calls w' = [Commit (accept_batch ''alice'' ''Alice'' bob_request)]"
    "map_of (store w' (Friends ''alice'')) ''bob'' = Some [(''displayName'', Str ''Bob'')]"
    "map_of (store w' (Friends ''bob'')) ''alice'' = Some [(''displayName'', Str ''Alice'')]"
    "map_of (store w' (FriendRequests ''alice'')) ''bob'' = None"
    "\<forall>c k. (c, k) \<notin> {(Friends ''alice'', ''bob''), (Friends ''bob'', ''alice''), (FriendRequests ''alice'', ''bob'')}
                  \<longrightarrow> map_of (store w' c) k = map_of (store request_world c) k"
    by (auto simp: eval)
  from h(7) have kept: "map_of (store w' (FriendRequests ''alice'')) ''carl'' = Some [(''displayName'', Str ''Carl'')]"
    "map_of (store w' (Friends ''alice'')) ''dora'' = Some [(''displayName'', Str ''Dora'')]"
    by (simp_all add: eval)
  from acceptRequest_all_or_nothing [OF eval(1) eval(2) batch, of strict_world]
  obtain r2 w2 where g: "handleFriendRequest bob_request ''accept'' (alice, strict_world) = (r2, alice, w2)"
    "r2 \<noteq> None" "calls w2 = [Commit (accept_batch ''alice'' ''Alice'' bob_request)]"
    "store w2 = store strict_world"
    by (auto simp: eval)
  from h kept g eval show ?thesis by blast
qed

lemma delete_as_filter: "AList.delete k al = filter (\<lambda>p. fst p \<noteq> k) al"
  by (induction al) auto

text \<open>
  C8. Declining (any action but \<open>accept\<close>) deletes the request document of the sender
  from the account's own requests and nothing else: the friends of every user, every
  other collection, the other requests and the application's state are unchanged. When the
  delete fails the store is unchanged.
\<close>

theorem declineRequest_deletes_request_only:
  assumes "action \<noteq> ''accept''" and "userId a = Some A"
  shows "\<exists>r w'. handleFriendRequest request action (a, w) = (r, a, w')
     \<and> (\<forall>u. store w' (Friends u) = store w (Friends u))
     \<and> (\<forall>c. c \<noteq> FriendRequests A \<longrightarrow> store w' c = store w c)
     \<and> accounts w' = accounts w
     \<and> (if db a \<and> A \<noteq> [] \<and> \<not> denied w (DeleteDoc (FriendRequests A) (doc_id request))
        then r = None
           \<and> store w' (FriendRequests A)
               = filter (\<lambda>p. fst p \<noteq> doc_id request) (store w (FriendRequests A))
        else r \<noteq> None \<and> store w' = store w)"
  using assms
  by (auto simp: handleFriendRequest_def deleteDoc_def logged_def delete_as_filter)

text \<open>C8 where Alice declines Bob: no friend edge appears on either side.\<close>

theorem declineRequest_deletes_request_only_witness:
  "''decline'' \<noteq> ''accept'' \<and> userId alice = Some ''alice''
   \<and> (\<exists>r w'. handleFriendRequest bob_request ''decline'' (alice, request_world) = (r, alice, w')
        \<and> r = None
        \<and> store w' (FriendRequests ''alice'') = [(''carl'', [(''displayName'', Str ''Carl'')])]
        \<and> store w' (Friends ''alice'') = [(''dora'', [(''displayName'', Str ''Dora'')])]
        \<and> store w' (Friends ''bob'') = [])"
proof -
  have eval: "''decline'' \<noteq> ''accept''" "userId alice = Some ''alice''"
    "db alice" "\<And>c. \<not> denied request_world c" "doc_id bob_request = ''bob''"
    "store request_world (FriendRequests ''alice'')
       = [(''bob'', doc_data bob_request), (''carl'', [(''displayName'', Str ''Carl'')])]"
    "store request_world (Friends ''alice'') = [(''dora'', [(''displayName'', Str ''Dora'')])]"
    "store request_world (Friends ''bob'') = []"
    by (simp_all add: alice_def bob_request_def request_world_def world0_def)
  from declineRequest_deletes_request_only [OF eval(1) eval(2), of bob_request request_world]
  show ?thesis by (auto simp: eval)
qed

section \<open>The lists\<close>

lemma removeFromList_app: "fst (removeFromList itemId listType (a, w)) = a"
  by (simp add: removeFromList_def split: option.splits)

lemma removeFromList_world:
  "snd (removeFromList itemId listType (a, w)) =
     (case userId a of
        None \<Rightarrow> w
      | Some u \<Rightarrow> if \<not> db a \<or> u = [] then w else snd (deleteDoc (listPath u listType) itemId w))"
  by (simp add: removeFromList_def split: option.splits)

lemma deleteDoc_store:
  "store (snd (deleteDoc c k w)) =
     (if denied w (DeleteDoc c k) then store w else (store w)(c := AList.delete k (store w c)))"
  by (simp add: deleteDoc_def logged_def)

lemma deleteDoc_kept:
  "denied (snd (deleteDoc c k w)) = denied w \<and> accounts (snd (deleteDoc c k w)) = accounts w"
  by (simp add: deleteDoc_def logged_def)

lemma removeFromList_twice:
  "store (snd (removeFromList itemId listType (removeFromList itemId listType (a, w))))
     = store (snd (removeFromList itemId listType (a, w)))"
proof -
  have "removeFromList itemId listType (a, w) = (a, snd (removeFromList itemId listType (a, w)))"
    by (simp add: removeFromList_app prod_eq_iff)
  then show ?thesis
    by (simp add: removeFromList_world deleteDoc_store deleteDoc_kept AList.delete_idem
        split: option.splits)
qed

text \<open>
  C9. \<open>removeFromList\<close> never changes the application's state, so it shows no error.
  When the list has no entry under the id the store is unchanged; a second call leaves
  the store as the first one left it; and a call that the store accepts removes every
  entry under the id and nothing else.
\<close>

theorem removeFromList_idempotent:
  "fst (removeFromList itemId listType (a, w)) = a
   \<and> accounts (snd (removeFromList itemId listType (a, w))) = accounts w
   \<and> (\<forall>u. userId a = Some u \<and> itemId \<notin> fst ` set (store w (listPath u listType))
          \<longrightarrow> store (snd (removeFromList itemId listType (a, w))) = store w)
   \<and> store (snd (removeFromList itemId listType (removeFromList itemId listType (a, w))))
       = store (snd (removeFromList itemId listType (a, w)))
   \<and> (\<forall>u. userId a = Some u \<and> u \<noteq> [] \<and> db a
            \<and> \<not> denied w (DeleteDoc (listPath u listType) itemId)
          \<longrightarrow> store (snd (removeFromList itemId listType (a, w)))
                = (store w)(listPath u listType :=
                     filter (\<lambda>p. fst p \<noteq> itemId) (store w (listPath u listType))))"
proof (intro conjI allI impI)
  show "fst (removeFromList itemId listType (a, w)) = a"
    by (rule removeFromList_app)
  show "accounts (snd (removeFromList itemId listType (a, w))) = accounts w"
    by (simp add: removeFromList_world deleteDoc_kept split: option.splits)
  show "store (snd (removeFromList itemId listType (a, w))) = store w"
    if "userId a = Some u \<and> itemId \<notin> fst ` set (store w (listPath u listType))" for u
    using that by (simp add: removeFromList_world deleteDoc_store)
  show "store (snd (removeFromList itemId listType (removeFromList itemId listType (a, w))))
       = store (snd (removeFromList itemId listType (a, w)))"
    by (rule removeFromList_twice)
  show "store (snd (removeFromList itemId listType (a, w)))
          = (store w)(listPath u listType :=
               filter (\<lambda>p. fst p \<noteq> itemId) (store w (listPath u listType)))"
    if "userId a = Some u \<and> u \<noteq> [] \<and> db a
          \<and> \<not> denied w (DeleteDoc (listPath u listType) itemId)" for u
    using that by (simp add: removeFromList_world deleteDoc_store delete_as_filter)
qed

text \<open>C9 on Alice's watched list: removing an absent id, and removing a title twice.\<close>

theorem removeFromList_idempotent_witness:
  "userId alice = Some ''alice'' \<and> ''alice'' \<noteq> [] \<and> db alice
   \<and> \<not> denied list_world (DeleteDoc (listPath ''alice'' ''watched'') ''603'')
   \<and> ''99'' \<notin> fst ` set (store list_world (listPath ''alice'' ''watched''))
   \<and> fst (removeFromList ''99'' ''watched'' (alice, list_world)) = alice
   \<and> store (snd (removeFromList ''99'' ''watched'' (alice, list_world))) = store list_world
   \<and> store (snd (removeFromList ''603'' ''watched'' (alice, list_world))) (WatchedList ''alice'')
       = [(''11'', watched_doc ''Star Wars'' 400 0)]
   \<and> store (snd (removeFromList ''603'' ''watched'' (removeFromList ''603'' ''watched'' (alice, list_world))))
       = store (snd (removeFromList ''603'' ''watched'' (alice, list_world)))"
proof -
  have eval: "userId alice = Some ''alice''" "''alice'' \<noteq> []" "db alice"
    "\<And>c. \<not> denied list_world c"
    "listPath ''alice'' ''watched'' = WatchedList ''alice''"
    "store list_world (WatchedList ''alice'')
       = [(''603'', watched_doc ''The Matrix'' 500 0), (''11'', watched_doc ''Star Wars'' 400 0)]"
    by (simp_all add: alice_def list_world_def world0_def listPath_def)
  from removeFromList_idempotent [of "''99''" "''watched''" alice list_world]
    removeFromList_idempotent [of "''603''" "''watched''" alice list_world]
  show ?thesis by (simp add: eval)
qed

lemma length_update_present:
  "k \<in> fst ` set al \<Longrightarrow> length (AList.update k v al) = length al"
  by (induction al) auto

lemma one_entry_of_key:
  "distinct (map fst al) \<Longrightarrow> k \<in> fst ` set al \<Longrightarrow> length (filter (\<lambda>p. fst p = k) al) = 1"
proof (induction al)
  case Nil
  then show ?case by simp
next
  case (Cons p al)
  show ?case
  proof (cases "fst p = k")
    case True
    with Cons.prems have "k \<notin> fst ` set al" by auto
    then have "filter (\<lambda>p. fst p = k) al = []" by (auto simp: filter_empty_conv)
    with True show ?thesis by simp
  next
    case False
    with Cons show ?thesis by auto
  qed
qed

text \<open>A call of \<open>addToList\<close> that succeeds, and one that fails.\<close>

lemma addToList_app_world:
  assumes "userId a = Some u" "u \<noteq> []" "db a"
    and "catalog w (media_type item) (media_id item) = Inr d"
    and "storable (media_entry item d (clock w))"
    and "\<not> denied w (SetDoc (listPath u listType) (decimal (media_id item)) (media_entry item d (clock w)))"
  shows "fst (addToList item listType (a, w)) = a"
    and "store (snd (addToList item listType (a, w)))
           = (store w)(listPath u listType :=
                AList.update (decimal (media_id item)) (media_entry item d (clock w))
                  (store w (listPath u listType)))"
    and "denied (snd (addToList item listType (a, w))) = denied w"
    and "catalog (snd (addToList item listType (a, w))) = catalog w"
    and "calls (snd (addToList item listType (a, w)))
           = calls w @ [Fetch (media_type item) (media_id item),
                        SetDoc (listPath u listType) (decimal (media_id item))
                          (media_entry item d (clock w))]"
  using assms by (simp_all add: addToList_def fetch_detail_def setDoc_def logged_def)

lemma addToList_fails:
  assumes "userId a = Some u" "u \<noteq> []" "db a"
    and "case catalog w (media_type item) (media_id item) of
           Inl e \<Rightarrow> True
         | Inr d \<Rightarrow> \<not> storable (media_entry item d (clock w))
             \<or> denied w (SetDoc (listPath u listType) (decimal (media_id item)) (media_entry item d (clock w)))"
  shows "fst (addToList item listType (a, w)) = a\<lparr>error := Some (could_not_add listType)\<rparr>"
    and "store (snd (addToList item listType (a, w))) = store w"
  using assms
  by (auto simp: addToList_def fetch_detail_def setDoc_def logged_def split: sum.splits)

lemma prop_of_media_entry:
  "prop_of (media_entry item d t) ''addedAt'' = Time t"
  "prop_of (media_entry item d t) ''media_type'' = Str (media_type item)"
  by (simp_all add: media_entry_def prop_of_def)

lemma add_twice_stores:
  assumes "userId a = Some u" "u \<noteq> []" "db a"
    and "distinct (map fst (store w (listPath u listType)))"
    and "media_id item2 = media_id item1"
    and "catalog w (media_type item1) (media_id item1) = Inr d1"
    and "storable (media_entry item1 d1 (clock w))"
    and "\<not> denied w (SetDoc (listPath u listType) (decimal (media_id item1))
            (media_entry item1 d1 (clock w)))"
    and "catalog w (media_type item2) (media_id item2) = Inr d2"
    and "storable (media_entry item2 d2 t2)"
    and "\<not> denied w (SetDoc (listPath u listType) (decimal (media_id item1))
            (media_entry item2 d2 t2))"
    and "w1 = snd (addToList item1 listType (a, w))"
    and "w2 = snd (addToList item2 listType (a, w1\<lparr>clock := t2\<rparr>))"
  shows "store w1 = (store w)(listPath u listType :=
            AList.update (decimal (media_id item1)) (media_entry item1 d1 (clock w))
              (store w (listPath u listType)))"
    and "store w2 = (store w1)(listPath u listType :=
            AList.update (decimal (media_id item1)) (media_entry item2 d2 t2)
              (store w1 (listPath u listType)))"
    and "decimal (media_id item1) \<in> fst ` set (store w1 (listPath u listType))"
    and "distinct (map fst (store w2 (listPath u listType)))"
    and "calls w2 = calls w @
           [Fetch (media_type item1) (media_id item1),
            SetDoc (listPath u listType) (decimal (media_id item1)) (media_entry item1 d1 (clock w)),
            Fetch (media_type item2) (media_id item1),
            SetDoc (listPath u listType) (decimal (media_id item1)) (media_entry item2 d2 t2)]"
proof -
  let ?c = "listPath u listType" and ?k = "decimal (media_id item1)"
  show s1: "store w1 = (store w)(?c := AList.update ?k (media_entry item1 d1 (clock w)) (store w ?c))"
    using assms(1-3,6-8,12) by (simp add: addToList_app_world)
  have r1: "denied w1 = denied w" and c1: "catalog w1 = catalog w"
    and l1: "calls w1 = calls w @ [Fetch (media_type item1) (media_id item1),
               SetDoc ?c ?k (media_entry item1 d1 (clock w))]"
    using assms(1-3,6-8,12) by (simp_all add: addToList_app_world)
  show s2: "store w2 = (store w1)(?c := AList.update ?k (media_entry item2 d2 t2) (store w1 ?c))"
    using addToList_app_world(2) [of a u "w1\<lparr>clock := t2\<rparr>" item2 d2 listType]
      assms(1-3,5,9-11,13) r1 c1 by simp
  show "?k \<in> fst ` set (store w1 ?c)"
    by (simp add: s1 dom_update)
  have "distinct (map fst (store w1 ?c))"
    using assms(4) by (simp add: s1 distinct_update)
  then show "distinct (map fst (store w2 ?c))"
    by (simp add: s2 distinct_update)
  show "calls w2 = calls w @
           [Fetch (media_type item1) (media_id item1),
            SetDoc ?c ?k (media_entry item1 d1 (clock w)),
            Fetch (media_type item2) (media_id item1),
            SetDoc ?c ?k (media_entry item2 d2 t2)]"
    using addToList_app_world(5) [of a u "w1\<lparr>clock := t2\<rparr>" item2 d2 listType]
      assms(1-3,5,9-11,13) r1 c1 l1 by simp
qed

text \<open>
  C7, as amended. Once a call of \<open>addToList\<close> has stored the entry of an item, a
  further call for an item of the same id, on the same list of the same account, never
  duplicates it: the length of the list is unchanged, the list holds exactly one entry
  under the id and the other entries are untouched. When the further call succeeds (the
  catalog answers, no field is undefined, the store accepts the write) the entry is the
  one it wrote, with the server time of that call as \<open>addedAt\<close>; when it fails, the
  error is shown and the entry of the first call stays.
\<close>

theorem addToList_again_never_duplicates:
  assumes "userId a = Some u" "u \<noteq> []" "db a"
    and "distinct (map fst (store w (listPath u listType)))"
    and "media_id item2 = media_id item1"
    and "catalog w (media_type item1) (media_id item1) = Inr d1"
    and "storable (media_entry item1 d1 (clock w))"
    and "\<not> denied w (SetDoc (listPath u listType) (decimal (media_id item1))
            (media_entry item1 d1 (clock w)))"
    and "w1 = snd (addToList item1 listType (a, w))"
    and "(a2, w2) = addToList item2 listType (a, w1\<lparr>clock := t2\<rparr>)"
  shows "length (store w2 (listPath u listType)) = length (store w1 (listPath u listType))
     \<and> length (filter (\<lambda>p. fst p = decimal (media_id item1)) (store w2 (listPath u listType))) = 1
     \<and> (\<forall>k. k \<noteq> decimal (media_id item1) \<longrightarrow>
            map_of (store w2 (listPath u listType)) k = map_of (store w1 (listPath u listType)) k)
     \<and> (case catalog w (media_type item2) (media_id item2) of
          Inl e \<Rightarrow>
            a2 = a\<lparr>error := Some (could_not_add listType)\<rparr>
            \<and> map_of (store w2 (listPath u listType)) (decimal (media_id item1))
                = Some (media_entry item1 d1 (clock w))
        | Inr d2 \<Rightarrow>
            if storable (media_entry item2 d2 t2)
               \<and> \<not> denied w (SetDoc (listPath u listType) (decimal (media_id item1))
                       (media_entry item2 d2 t2))
            then a2 = a
               \<and> map_of (store w2 (listPath u listType)) (decimal (media_id item1))
                   = Some (media_entry item2 d2 t2)
               \<and> prop_of (media_entry item2 d2 t2) ''addedAt'' = Time t2
            else a2 = a\<lparr>error := Some (could_not_add listType)\<rparr>
               \<and> map_of (store w2 (listPath u listType)) (decimal (media_id item1))
                   = Some (media_entry item1 d1 (clock w)))"
proof -
  let ?c = "listPath u listType" and ?k = "decimal (media_id item1)"
  let ?e1 = "media_entry item1 d1 (clock w)"
  have s1: "store w1 = (store w)(?c := AList.update ?k ?e1 (store w ?c))"
    and r1: "denied w1 = denied w" and c1: "catalog w1 = catalog w"
    using assms(1-3,6-9) by (simp_all add: addToList_app_world)
  have present: "?k \<in> fst ` set (store w1 ?c)"
    by (simp add: s1 dom_update)
  have dist1: "distinct (map fst (store w1 ?c))"
    using assms(4) by (simp add: s1 distinct_update)
  have first: "map_of (store w1 ?c) ?k = Some ?e1"
    by (simp add: s1 update_conv')
  have a2: "a2 = fst (addToList item2 listType (a, w1\<lparr>clock := t2\<rparr>))"
    and w2: "w2 = snd (addToList item2 listType (a, w1\<lparr>clock := t2\<rparr>))"
    using assms(10) by (metis fst_conv, metis snd_conv)
  show ?thesis
  proof (cases "catalog w (media_type item2) (media_id item2)")
    case (Inl e)
    then have "a2 = a\<lparr>error := Some (could_not_add listType)\<rparr>" and "store w2 = store w1"
      using addToList_fails [of a u item2 "w1\<lparr>clock := t2\<rparr>" listType] assms(1-3) c1 a2 w2
      by simp_all
    with Inl present dist1 first show ?thesis
      by (simp add: one_entry_of_key)
  next
    case (Inr d2)
    show ?thesis
    proof (cases "storable (media_entry item2 d2 t2)
               \<and> \<not> denied w (SetDoc ?c ?k (media_entry item2 d2 t2))")
      case True
      have s2: "store w2 = (store w1)(?c := AList.update ?k (media_entry item2 d2 t2) (store w1 ?c))"
        and "a2 = a"
        using addToList_app_world(1,2) [of a u "w1\<lparr>clock := t2\<rparr>" item2 d2 listType]
          assms(1-3,5) Inr True r1 c1 a2 w2 by simp_all
      moreover have "distinct (map fst (store w2 ?c))"
        using dist1 by (simp add: s2 distinct_update)
      then have "length (filter (\<lambda>p. fst p = ?k) (store w2 ?c)) = 1"
        by (intro one_entry_of_key) (simp_all add: s2 dom_update)
      ultimately show ?thesis
        using Inr True present
        by (simp add: length_update_present update_conv' prop_of_media_entry)
    next
      case False
      then have "a2 = a\<lparr>error := Some (could_not_add listType)\<rparr>" and "store w2 = store w1"
        using addToList_fails [of a u item2 "w1\<lparr>clock := t2\<rparr>" listType] assms(1-3,5) Inr r1 c1 a2 w2
        by auto
      with Inr False present dist1 first show ?thesis
        by (auto simp: one_entry_of_key)
    qed
  qed
qed

lemma decimal_603: "decimal 603 = ''603''"
  by code_simp

lemma example_entries:
  "catalog list_world ''movie'' 603 = Inr \<lparr>runtime = Num 139, episode_run_time = None\<rparr>"
  "catalog world0 ''movie'' 603 = Inr \<lparr>runtime = Num 139, episode_run_time = None\<rparr>"
  "catalog world0 ''tv'' 603 = Inr \<lparr>runtime = Undefined, episode_run_time = Some [Num 45]\<rparr>"
  "storable (media_entry the_matrix \<lparr>runtime = Num 139, episode_run_time = None\<rparr> t)"
  "storable (media_entry a_series \<lparr>runtime = Undefined, episode_run_time = Some [Num 45]\<rparr> t)"
  "userId alice = Some ''alice''" "''alice'' \<noteq> []" "db alice"
  "\<not> denied list_world c" "\<not> denied world0 c"
  "listPath ''alice'' ''watched'' = WatchedList ''alice''"
  "listPath ''alice'' ''wishlist'' = Wishlist ''alice''"
  "distinct (map fst (store list_world (WatchedList ''alice'')))"
  "store world0 (Wishlist ''alice'') = []"
  "media_id the_matrix = 603" "media_id a_series = 603"
  "media_type the_matrix = ''movie''" "media_type a_series = ''tv''"
  by (simp_all add: list_world_def world0_def alice_def the_matrix_def a_series_def listPath_def
      storable_def media_entry_def js_or_def runtime_of_def)

text \<open>C7 where Alice adds The Matrix twice to her watched list of two titles.\<close>

theorem addToList_again_never_duplicates_witness:
  "userId alice = Some ''alice'' \<and> db alice
   \<and> distinct (map fst (store list_world (listPath ''alice'' ''watched'')))
   \<and> length (store (snd (addToList the_matrix ''watched'' (alice, list_world))) (WatchedList ''alice'')) = 2
   \<and> length (store (snd (addToList the_matrix ''watched''
        (alice, (snd (addToList the_matrix ''watched'' (alice, list_world)))
                  \<lparr>clock := \<lparr>seconds = 2000, nanoseconds = 0\<rparr>\<rparr>))) (WatchedList ''alice'')) = 2
   \<and> map_option (\<lambda>d. prop_of d ''addedAt'')
       (map_of (store (snd (addToList the_matrix ''watched''
        (alice, (snd (addToList the_matrix ''watched'' (alice, list_world)))
                  \<lparr>clock := \<lparr>seconds = 2000, nanoseconds = 0\<rparr>\<rparr>))) (WatchedList ''alice'')) ''603'')
       = Some (Time \<lparr>seconds = 2000, nanoseconds = 0\<rparr>)"
proof -
  have len1: "length (store (snd (addToList the_matrix ''watched'' (alice, list_world))) (WatchedList ''alice'')) = 2"
    using addToList_app_world(2) [of alice "''alice''" list_world the_matrix _ "''watched''"]
    by (simp add: example_entries decimal_603) (simp add: list_world_def)
  from addToList_again_never_duplicates [of alice "''alice''" list_world "''watched''" the_matrix the_matrix
      "\<lparr>runtime = Num 139, episode_run_time = None\<rparr>" _ _ _
      "\<lparr>seconds = 2000, nanoseconds = 0\<rparr>", OF _ _ _ _ _ _ _ _ refl prod.collapse]
  show ?thesis
    by (simp add: example_entries decimal_603 len1 prop_of_media_entry)
qed

text \<open>
  C7, as stated, fails where no entry is stored. When the detail lookup of the catalog
  fails, the add fails as a whole (lines 258-259 and 270-272). And a movie with the empty
  string as release date and no first air date has \<open>undefined\<close> as \<open>release_date\<close>
  of its entry (line 266), so \<open>setDoc\<close> throws. Either way \<open>addToList\<close> shows its
  error, and after two calls on the empty list the id appears in it not once but not at all.
\<close>

theorem addToList_twice_counterexample:
  "store (snd (addToList the_matrix ''watched''
                (addToList the_matrix ''watched'' (alice, no_catalog_world)))) (WatchedList ''alice'') = []
   \<and> error (fst (addToList the_matrix ''watched''
                (addToList the_matrix ''watched'' (alice, no_catalog_world))))
       = Some (could_not_add ''watched'')
   \<and> store (snd (addToList undated_movie ''watched''
                (addToList undated_movie ''watched'' (alice, world0)))) (WatchedList ''alice'') = []
   \<and> error (fst (addToList undated_movie ''watched''
                (addToList undated_movie ''watched'' (alice, world0))))
       = Some (could_not_add ''watched'')"
  by (simp add: addToList_def fetch_detail_def setDoc_def logged_def storable_def media_entry_def
      js_or_def runtime_of_def undated_movie_def the_matrix_def alice_def world0_def
      no_catalog_world_def)

text \<open>
  C10. The key of the written entry is the decimal form of the catalog id and nothing
  else: adding a series after a movie of the same id, both successfully and to the same
  list, writes twice under one key. The movie's entry is replaced by the series' entry,
  the list holds one entry under that key and is no longer than before, and a list that
  was empty then holds the series alone.
\<close>

theorem series_overwrites_movie_of_same_id:
  assumes "userId a = Some u" "u \<noteq> []" "db a"
    and "distinct (map fst (store w (listPath u listType)))"
    and "media_id series = media_id movie"
    and "catalog w (media_type movie) (media_id movie) = Inr d1"
    and "storable (media_entry movie d1 (clock w))"
    and "\<not> denied w (SetDoc (listPath u listType) (decimal (media_id movie))
            (media_entry movie d1 (clock w)))"
    and "catalog w (media_type series) (media_id series) = Inr d2"
    and "storable (media_entry series d2 t2)"
    and "\<not> denied w (SetDoc (listPath u listType) (decimal (media_id movie))
            (media_entry series d2 t2))"
    and "w1 = snd (addToList movie listType (a, w))"
    and "w2 = snd (addToList series listType (a, w1\<lparr>clock := t2\<rparr>))"
    and "media_type movie = ''movie''" and "media_type series = ''tv''"
  shows "map_of (store w1 (listPath u listType)) (decimal (media_id movie))
           = Some (media_entry movie d1 (clock w))
     \<and> map_of (store w2 (listPath u listType)) (decimal (media_id movie))
           = Some (media_entry series d2 t2)
     \<and> prop_of (media_entry movie d1 (clock w)) ''media_type'' = Str ''movie''
     \<and> prop_of (media_entry series d2 t2) ''media_type'' = Str ''tv''
     \<and> length (filter (\<lambda>p. fst p = decimal (media_id movie)) (store w2 (listPath u listType))) = 1
     \<and> length (store w2 (listPath u listType)) = length (store w1 (listPath u listType))
     \<and> (store w (listPath u listType) = [] \<longrightarrow>
          store w2 (listPath u listType) = [(decimal (media_id movie), media_entry series d2 t2)])
     \<and> calls w2 = calls w @
          [Fetch ''movie'' (media_id movie),
           SetDoc (listPath u listType) (decimal (media_id movie)) (media_entry movie d1 (clock w)),
           Fetch ''tv'' (media_id movie),
           SetDoc (listPath u listType) (decimal (media_id movie)) (media_entry series d2 t2)]"
proof -
  let ?c = "listPath u listType" and ?k = "decimal (media_id movie)"
  note st = add_twice_stores [OF assms(1-13)]
  have "map_of (store w1 ?c) ?k = Some (media_entry movie d1 (clock w))"
    by (simp add: st(1) update_conv')
  moreover have "map_of (store w2 ?c) ?k = Some (media_entry series d2 t2)"
    by (simp add: st(2) update_conv')
  moreover have "length (filter (\<lambda>p. fst p = ?k) (store w2 ?c)) = 1"
    using st(4) by (intro one_entry_of_key) (simp_all add: st(2) dom_update)
  moreover have "length (store w2 ?c) = length (store w1 ?c)"
    using st(3) by (simp add: st(2) length_update_present)
  moreover have "store w2 ?c = [(?k, media_entry series d2 t2)]" if "store w ?c = []"
    using that by (simp add: st(2) st(1))
  moreover have "calls w2 = calls w @
          [Fetch ''movie'' (media_id movie),
           SetDoc ?c ?k (media_entry movie d1 (clock w)),
           Fetch ''tv'' (media_id movie),
           SetDoc ?c ?k (media_entry series d2 t2)]"
    using st(5) assms(14,15) by simp
  ultimately show ?thesis
    using assms(14,15) by (simp add: prop_of_media_entry)
qed

text \<open>C10 on Alice's empty wishlist, with a movie and a series numbered 603.\<close>

theorem series_overwrites_movie_of_same_id_witness:
  "userId alice = Some ''alice'' \<and> db alice
   \<and> media_id a_series = media_id the_matrix
   \<and> media_type the_matrix = ''movie'' \<and> media_type a_series = ''tv''
   \<and> store world0 (listPath ''alice'' ''wishlist'') = []
   \<and> store (snd (addToList a_series ''wishlist''
        (alice, (snd (addToList the_matrix ''wishlist'' (alice, world0)))
                  \<lparr>clock := \<lparr>seconds = 2000, nanoseconds = 0\<rparr>\<rparr>))) (Wishlist ''alice'')
       = [(''603'', media_entry a_series \<lparr>runtime = Undefined, episode_run_time = Some [Num 45]\<rparr>
                     \<lparr>seconds = 2000, nanoseconds = 0\<rparr>)]"
proof -
  from series_overwrites_movie_of_same_id [of alice "''alice''" world0 "''wishlist''" a_series the_matrix
      "\<lparr>runtime = Num 139, episode_run_time = None\<rparr>"
      "\<lparr>runtime = Undefined, episode_run_time = Some [Num 45]\<rparr>"
      "\<lparr>seconds = 2000, nanoseconds = 0\<rparr>", OF _ _ _ _ _ _ _ _ _ _ _ refl refl]
  show ?thesis
    by (simp add: example_entries decimal_603)
qed

end
